theory Spec2Isabelle
  imports Main "HOL-Library.Word"
begin

section \<open>JavaScript values used by the forum controller\<close>

text \<open>
  A JavaScript string is a sequence of UTF-16 code units; \<open>substring\<close> and \<open>length\<close>
  count code units. \<open>ascii\<close> writes the string literals of the source.
\<close>

type_synonym jsstring = "16 word list"

definition ascii :: "string \<Rightarrow> jsstring" where
  "ascii s = map (\<lambda>c. of_nat (of_char c)) s"

text \<open>
  \<open>String.prototype.trim\<close> strips the ECMAScript WhiteSpace and LineTerminator code
  points from both ends.
\<close>

definition isWhiteSpace :: "16 word \<Rightarrow> bool" where
  "isWhiteSpace c \<longleftrightarrow>
     c \<in> {0x09, 0x0A, 0x0B, 0x0C, 0x0D, 0x20, 0xA0, 0x1680,
          0x2028, 0x2029, 0x202F, 0x205F, 0x3000, 0xFEFF}
     \<or> (0x2000 \<le> c \<and> c \<le> 0x200A)"

definition trim :: "jsstring \<Rightarrow> jsstring" where
  "trim s = rev (dropWhile isWhiteSpace (rev (dropWhile isWhiteSpace s)))"

text \<open>\<open>s.substring(0, n)\<close> for a non-negative constant \<open>n\<close>.\<close>

definition substring0 :: "nat \<Rightarrow> jsstring \<Rightarrow> jsstring" where
  "substring0 n s = take n s"

text \<open>
  The value a JSON request body can carry in the \<open>position\<close> field. \<open>NonInteger\<close> is a
  finite number with a fractional part (or an infinity after overflow); it is truthy and
  not an integer.
\<close>

datatype jsvalue =
    Undefined
  | Null
  | Boolean bool
  | Integer int
  | NonInteger
  | NaN
  | String jsstring

fun falsy :: "jsvalue \<Rightarrow> bool" where
  "falsy Undefined = True"
| "falsy Null = True"
| "falsy (Boolean b) = (\<not> b)"
| "falsy (Integer i) = (i = 0)"
| "falsy NonInteger = False"
| "falsy NaN = True"
| "falsy (String s) = (s = [])"

fun isInteger :: "jsvalue \<Rightarrow> bool" where
  "isInteger (Integer i) = True"
| "isInteger v = False"

section \<open>Documents and collections\<close>

text \<open>
  Object ids and ISO timestamps are kept abstract as natural numbers. An id argument of a
  request is \<open>None\<close> when the field is missing or empty, which is when \<open>!id\<close> holds.
  The fields of the three document kinds carry the prefixes \<open>b_\<close>, \<open>t_\<close> and \<open>a_\<close>,
  since Board, Thread and Answer share field names; \<open>att_\<close> and \<open>p_\<close> prefix the fields
  of an attachment and of \<open>req.payload\<close>.
\<close>

type_synonym oid = nat
type_synonym timestamp = nat

record attachment =
  att_file :: jsstring
  att_type :: jsstring
  att_size :: nat

record uploaded =
  filename :: jsstring
  mimetype :: jsstring
  filesize :: nat

record board =
  b_id :: oid
  b_name :: jsstring
  b_title :: jsstring
  b_body :: "jsstring option"
  b_position :: int
  b_createdAt :: timestamp
  b_threadsCount :: int
  b_answersCount :: int
  b_newestThread :: "timestamp option"
  b_newestAnswer :: "timestamp option"

record thread =
  t_id :: oid
  t_boardId :: oid
  t_pined :: bool
  t_closed :: bool
  t_title :: jsstring
  t_body :: jsstring
  t_createdAt :: timestamp
  t_author :: oid
  t_edited :: "timestamp option"
  t_likes :: "oid list"
  t_answersCount :: int
  t_newestAnswer :: timestamp
  t_attach :: "attachment list option"

record answer =
  a_id :: oid
  a_boardId :: oid
  a_threadId :: oid
  a_answeredTo :: "oid option"
  a_body :: jsstring
  a_createdAt :: timestamp
  a_author :: oid
  a_edited :: "timestamp option"
  a_likes :: "oid list"
  a_attach :: "attachment list option"

record store =
  boards :: "board list"
  threads :: "thread list"
  answers :: "answer list"

text \<open>
  The Mongoose calls of the controller on a collection, a list of documents:
  \<open>Model.findById\<close>, \<open>Model.updateOne({ _id }, u)\<close>, \<open>doc.delete()\<close>,
  \<open>Model.deleteMany(filter)\<close>, \<open>new Model(d).save()\<close> and \<open>doc.save()\<close> of a loaded
  document. \<open>updateOne\<close> with no matching document changes nothing and is no error.
\<close>

definition findById :: "('d \<Rightarrow> oid) \<Rightarrow> oid \<Rightarrow> 'd list \<Rightarrow> 'd option" where
  "findById key i docs = find (\<lambda>d. key d = i) docs"

fun updateOne :: "('d \<Rightarrow> oid) \<Rightarrow> oid \<Rightarrow> ('d \<Rightarrow> 'd) \<Rightarrow> 'd list \<Rightarrow> 'd list" where
  "updateOne key i f [] = []"
| "updateOne key i f (d # ds) =
     (if key d = i then f d # ds else d # updateOne key i f ds)"

fun deleteDoc :: "('d \<Rightarrow> oid) \<Rightarrow> oid \<Rightarrow> 'd list \<Rightarrow> 'd list" where
  "deleteDoc key i [] = []"
| "deleteDoc key i (d # ds) = (if key d = i then ds else d # deleteDoc key i ds)"

definition deleteMany :: "('d \<Rightarrow> bool) \<Rightarrow> 'd list \<Rightarrow> 'd list" where
  "deleteMany matches docs = filter (\<lambda>d. \<not> matches d) docs"

definition saveNew :: "'d \<Rightarrow> 'd list \<Rightarrow> 'd list" where
  "saveNew d docs = docs @ [d]"

definition save :: "('d \<Rightarrow> oid) \<Rightarrow> 'd \<Rightarrow> 'd list \<Rightarrow> 'd list" where
  "save key d docs = updateOne key (key d) (\<lambda>_. d) docs"

section \<open>Requests and responses\<close>

text \<open>
  \<open>req.payload\<close> is the verified token: the caller's id and role. The environment supplies
  what the handler reads from outside: the clock, the id Mongoose gives a new document and
  \<open>process.env.BACKEND\<close>.
\<close>

record payload =
  p_id :: oid
  p_role :: jsstring

record env =
  now :: timestamp
  newId :: oid
  BACKEND :: jsstring

text \<open>
  \<open>next(createError.X(msg))\<close> ends the request with an error. A \<open>TypeError\<close> on a
  \<open>null\<close> document is caught by the handler's \<open>try\<close> and becomes
  \<open>InternalServerError\<close>; inside the \<open>upload\<close> callback of \<open>createThread\<close> and
  \<open>createAnswer\<close> nothing catches it, and the request ends as an unhandled rejection.
\<close>

datatype http_error =
    BadRequest string
  | Unauthorized string
  | InternalServerError
  | UnhandledRejection

datatype reply =
    BoardDoc "board option"
  | ThreadDoc "thread option"
  | AnswerDoc "answer option"
  | Message string

type_synonym response = "http_error + reply"

text \<open>
  Modelled from the spec: the Mongoose schemas (\<open>models/Board\<close>, \<open>models/Thread\<close>,
  \<open>models/Answer\<close>) are not among the sources. Following the data model of the spec, a
  document saved without these fields has no \<open>edited\<close> marker, an empty \<open>likes\<close>
  collection and an \<open>answersCount\<close> of 0 (which is also what \<open>$inc\<close> assumes for an
  absent field); a Board has no \<open>newestThread\<close> or \<open>newestAnswer\<close> until a child is
  created.
\<close>

definition noEdited :: "timestamp option" where
  "noEdited = None"

definition noLikes :: "oid list" where
  "noLikes = []"

definition zeroAnswers :: int where
  "zeroAnswers = 0"

definition noNewest :: "timestamp option" where
  "noNewest = None"

section \<open>Board handlers\<close>

text \<open>
  \<open>!position || !Number.isInteger(position) || position < 0\<close>. The comparison is
  evaluated only after \<open>Number.isInteger\<close> held, so \<open>intValue\<close> is read on integers only.
\<close>

fun intValue :: "jsvalue \<Rightarrow> int" where
  "intValue (Integer i) = i"
| "intValue v = 0"

definition positionRejected :: "jsvalue \<Rightarrow> bool" where
  "positionRejected position \<longleftrightarrow>
     falsy position \<or> \<not> isInteger position \<or> intValue position < 0"

definition isAdmin :: "payload \<Rightarrow> bool" where
  "isAdmin pl \<longleftrightarrow> p_role pl = ascii ''admin''"

definition createBoard ::
  "env \<Rightarrow> payload \<Rightarrow> jsstring \<Rightarrow> jsstring \<Rightarrow> jsstring option \<Rightarrow> jsvalue \<Rightarrow> store
     \<Rightarrow> store \<times> response" where
  "createBoard e pl name title body position s =
     (let admin = isAdmin pl in
      if \<not> admin then (s, Inl (Unauthorized ''Action not allowed''))
      else if trim name = [] then (s, Inl (BadRequest ''Board name must not be empty''))
      else if trim title = [] then (s, Inl (BadRequest ''Board title must not be empty''))
      else if positionRejected position then (s, Inl (BadRequest ''Position must be number''))
      else
        let newBoard = \<lparr> b_id = newId e, b_name = name, b_title = title, b_body = body,
                          b_position = intValue position, b_createdAt = now e,
                          b_threadsCount = 0, b_answersCount = 0,
                          b_newestThread = noNewest, b_newestAnswer = noNewest \<rparr>
        in (s\<lparr>boards := saveNew newBoard (boards s)\<rparr>, Inr (BoardDoc (Some newBoard))))"

definition deleteBoard :: "payload \<Rightarrow> oid option \<Rightarrow> store \<Rightarrow> store \<times> response" where
  "deleteBoard pl boardId s =
     (let admin = isAdmin pl in
      if \<not> admin then (s, Inl (Unauthorized ''Action not allowed''))
      else case boardId of
        None \<Rightarrow> (s, Inl (BadRequest ''boardId must not be empty''))
      | Some bid \<Rightarrow>
          (case findById b_id bid (boards s) of
             None \<Rightarrow> (s, Inl InternalServerError)
           | Some board \<Rightarrow>
               (s\<lparr>boards := deleteDoc b_id (b_id board) (boards s)\<rparr>,
                Inr (Message ''Board successfully deleted''))))"

text \<open>
  \<open>editBoard\<close>, \<open>editThread\<close>, \<open>adminEditThread\<close> and \<open>editAnswer\<close> do not test their id
  argument; a missing id behaves as an id that matches no document.
\<close>

definition editBoard ::
  "payload \<Rightarrow> oid \<Rightarrow> jsstring \<Rightarrow> jsstring \<Rightarrow> jsstring option \<Rightarrow> jsvalue \<Rightarrow> store
     \<Rightarrow> store \<times> response" where
  "editBoard pl boardId name title body position s =
     (let admin = isAdmin pl in
      if \<not> admin then (s, Inl (Unauthorized ''Action not allowed''))
      else if trim name = [] then (s, Inl (BadRequest ''Board name must not be empty''))
      else if trim title = [] then (s, Inl (BadRequest ''Board title must not be empty''))
      else if positionRejected position then (s, Inl (BadRequest ''Position must be number''))
      else
        let bs = updateOne b_id boardId
                   (\<lambda>b. b\<lparr>b_name := name, b_title := title, b_body := body,
                           b_position := intValue position\<rparr>) (boards s)
        in (s\<lparr>boards := bs\<rparr>, Inr (BoardDoc (findById b_id boardId bs))))"

section \<open>Thread handlers\<close>

text \<open>
  The multipart requests (\<open>createThread\<close>, \<open>createAnswer\<close>) pass through \<open>upload\<close> first:
  \<open>uploadErr\<close> is its error, if any, and \<open>files\<close> is \<open>req.files\<close>.
\<close>

definition attachOf :: "env \<Rightarrow> uploaded \<Rightarrow> attachment" where
  "attachOf e item =
     \<lparr> att_file = BACKEND e @ ascii ''/forum/'' @ filename item,
       att_type = mimetype item,
       att_size = filesize item \<rparr>"

definition attachFiles :: "env \<Rightarrow> uploaded list \<Rightarrow> attachment list option" where
  "attachFiles e files =
     (if length files \<noteq> 0
      then Some (foldl (\<lambda>array item. array @ [attachOf e item]) [] files)
      else None)"

definition createThread ::
  "env \<Rightarrow> payload \<Rightarrow> string option \<Rightarrow> uploaded list \<Rightarrow> oid option \<Rightarrow> jsstring \<Rightarrow> jsstring
     \<Rightarrow> store \<Rightarrow> store \<times> response" where
  "createThread e pl uploadErr files boardId title body s =
     (case uploadErr of
        Some err \<Rightarrow> (s, Inl (BadRequest err))
      | None \<Rightarrow>
        (case boardId of
           None \<Rightarrow> (s, Inl (BadRequest ''boardId must not be empty''))
         | Some bid \<Rightarrow>
             if trim title = [] then (s, Inl (BadRequest ''Thread title must not be empty''))
             else if trim body = [] then (s, Inl (BadRequest ''Thread body must not be empty''))
             else
               let newThread =
                     \<lparr> t_id = newId e, t_boardId = bid, t_pined = False, t_closed = False,
                       t_title = substring0 100 title, t_body = substring0 1000 body,
                       t_createdAt = now e, t_author = p_id pl, t_edited = noEdited,
                       t_likes = noLikes, t_answersCount = zeroAnswers,
                       t_newestAnswer = now e, t_attach = attachFiles e files \<rparr>
               in (s\<lparr>threads := saveNew newThread (threads s),
                     boards := updateOne b_id bid
                       (\<lambda>b. b\<lparr>b_threadsCount := b_threadsCount b + 1,
                               b_newestThread := Some (now e)\<rparr>) (boards s)\<rparr>,
                   Inr (ThreadDoc (Some newThread)))))"

definition deleteThread :: "payload \<Rightarrow> oid option \<Rightarrow> store \<Rightarrow> store \<times> response" where
  "deleteThread pl threadId s =
     (let admin = isAdmin pl in
      if \<not> admin then (s, Inl (Unauthorized ''Action not allowed''))
      else case threadId of
        None \<Rightarrow> (s, Inl (BadRequest ''threadId must not be empty''))
      | Some tid \<Rightarrow>
          (case findById t_id tid (threads s) of
             None \<Rightarrow> (s, Inl InternalServerError)
           | Some thread \<Rightarrow>
               (s\<lparr>threads := deleteDoc t_id (t_id thread) (threads s),
                  answers := deleteMany (\<lambda>a. a_threadId a = tid) (answers s),
                  boards := updateOne b_id (t_boardId thread)
                    (\<lambda>b. b\<lparr>b_threadsCount := b_threadsCount b - 1\<rparr>) (boards s)\<rparr>,
                Inr (Message ''Thread successfully deleted''))))"

text \<open>An optional flag of the request body is \<open>None\<close> when it is \<open>undefined\<close>.\<close>

definition editThread ::
  "env \<Rightarrow> payload \<Rightarrow> oid \<Rightarrow> jsstring \<Rightarrow> jsstring \<Rightarrow> bool option \<Rightarrow> store
     \<Rightarrow> store \<times> response" where
  "editThread e pl threadId title body closed s =
     (if trim title = [] then (s, Inl (BadRequest ''Board title must not be empty''))
      else if trim body = [] then (s, Inl (BadRequest ''Thread body must not be empty''))
      else case findById t_id threadId (threads s) of
        None \<Rightarrow> (s, Inl InternalServerError)
      | Some thread \<Rightarrow>
          if p_id pl \<noteq> t_author thread then (s, Inl (Unauthorized ''Action not allowed''))
          else
            let ts = updateOne t_id threadId
                       (\<lambda>t. t\<lparr>t_title := substring0 100 title,
                               t_body := substring0 1000 body,
                               t_closed := (case closed of None \<Rightarrow> t_closed thread | Some c \<Rightarrow> c),
                               t_edited := (case closed of None \<Rightarrow> Some (now e) | Some c \<Rightarrow> None)\<rparr>)
                       (threads s)
            in (s\<lparr>threads := ts\<rparr>, Inr (ThreadDoc (findById t_id threadId ts))))"

text \<open>
  In \<open>adminEditThread\<close> the loaded thread is read only for a flag that is \<open>undefined\<close>:
  with no such thread and both flags given, nothing throws, the update matches nothing and
  the reply is \<open>null\<close>.
\<close>

definition adminEditThread ::
  "env \<Rightarrow> payload \<Rightarrow> oid \<Rightarrow> jsstring \<Rightarrow> jsstring \<Rightarrow> bool option \<Rightarrow> bool option \<Rightarrow> store
     \<Rightarrow> store \<times> response" where
  "adminEditThread e pl threadId title body pined closed s =
     (let admin = isAdmin pl in
      if \<not> admin then (s, Inl (Unauthorized ''Action not allowed''))
      else if trim title = [] then (s, Inl (BadRequest ''Board title must not be empty''))
      else if trim body = [] then (s, Inl (BadRequest ''Thread body must not be empty''))
      else case findById t_id threadId (threads s) of
        None \<Rightarrow>
          if pined = None \<or> closed = None then (s, Inl InternalServerError)
          else (s, Inr (ThreadDoc None))
      | Some thread \<Rightarrow>
          let ts = updateOne t_id threadId
                     (\<lambda>t. t\<lparr>t_title := substring0 100 title,
                             t_body := substring0 1000 body,
                             t_pined := (case pined of None \<Rightarrow> t_pined thread | Some p \<Rightarrow> p),
                             t_closed := (case closed of None \<Rightarrow> t_closed thread | Some c \<Rightarrow> c),
                             t_edited := (if pined = None \<and> closed = None
                                          then Some (now e) else None)\<rparr>)
                     (threads s)
          in (s\<lparr>threads := ts\<rparr>, Inr (ThreadDoc (findById t_id threadId ts))))"

text \<open>
  The branch shared by \<open>likeThread\<close> and \<open>likeAnswer\<close>: \<open>likes.find\<close> for the caller,
  then \<open>likes.filter\<close> (unlike) or \<open>likes.push\<close> (like).
\<close>

definition toggleLike :: "oid \<Rightarrow> oid list \<Rightarrow> oid list" where
  "toggleLike uid likes =
     (if find (\<lambda>like. like = uid) likes \<noteq> None
      then filter (\<lambda>like. like \<noteq> uid) likes
      else likes @ [uid])"

definition likeThread :: "payload \<Rightarrow> oid option \<Rightarrow> store \<Rightarrow> store \<times> response" where
  "likeThread pl threadId s =
     (case threadId of
        None \<Rightarrow> (s, Inl (BadRequest ''threadId must not be empty''))
      | Some tid \<Rightarrow>
          (case findById t_id tid (threads s) of
             None \<Rightarrow> (s, Inl InternalServerError)
           | Some thread \<Rightarrow>
               let thread' = thread\<lparr>t_likes := toggleLike (p_id pl) (t_likes thread)\<rparr>;
                   ts = save t_id thread' (threads s)
               in (s\<lparr>threads := ts\<rparr>, Inr (ThreadDoc (findById t_id tid ts)))))"

section \<open>Answer handlers\<close>

text \<open>
  \<open>createAnswer\<close> also passes \<open>newestAnswer: now\<close> to the Answer constructor; the Answer
  of the data model has no such field, and nothing reads it.
\<close>

definition createAnswer ::
  "env \<Rightarrow> payload \<Rightarrow> string option \<Rightarrow> uploaded list \<Rightarrow> oid option \<Rightarrow> oid option \<Rightarrow> jsstring
     \<Rightarrow> store \<Rightarrow> store \<times> response" where
  "createAnswer e pl uploadErr files threadId answeredTo body s =
     (case uploadErr of
        Some err \<Rightarrow> (s, Inl (BadRequest err))
      | None \<Rightarrow>
        (case threadId of
           None \<Rightarrow> (s, Inl (BadRequest ''threadId must not be empty''))
         | Some tid \<Rightarrow>
             if trim body = [] then (s, Inl (BadRequest ''Answer body must not be empty''))
             else case findById t_id tid (threads s) of
               None \<Rightarrow> (s, Inl UnhandledRejection)
             | Some thread \<Rightarrow>
                 let newAnswer =
                       \<lparr> a_id = newId e, a_boardId = t_boardId thread, a_threadId = tid,
                         a_answeredTo = answeredTo, a_body = substring0 1000 body,
                         a_createdAt = now e, a_author = p_id pl, a_edited = noEdited,
                         a_likes = noLikes, a_attach = attachFiles e files \<rparr>
                 in (s\<lparr>answers := saveNew newAnswer (answers s),
                       boards := updateOne b_id (t_boardId thread)
                         (\<lambda>b. b\<lparr>b_answersCount := b_answersCount b + 1,
                                 b_newestAnswer := Some (now e)\<rparr>) (boards s),
                       threads := updateOne t_id tid
                         (\<lambda>t. t\<lparr>t_answersCount := t_answersCount t + 1,
                                 t_newestAnswer := now e\<rparr>) (threads s)\<rparr>,
                     Inr (AnswerDoc (Some newAnswer)))))"

definition deleteAnswer :: "payload \<Rightarrow> oid option \<Rightarrow> store \<Rightarrow> store \<times> response" where
  "deleteAnswer pl answerId s =
     (let admin = isAdmin pl in
      if \<not> admin then (s, Inl (Unauthorized ''Action not allowed''))
      else case answerId of
        None \<Rightarrow> (s, Inl (BadRequest ''answerId must not be empty''))
      | Some aid \<Rightarrow>
          (case findById a_id aid (answers s) of
             None \<Rightarrow> (s, Inl InternalServerError)
           | Some answer \<Rightarrow>
               (s\<lparr>answers := deleteDoc a_id (a_id answer) (answers s),
                  threads := updateOne t_id (a_threadId answer)
                    (\<lambda>t. t\<lparr>t_answersCount := t_answersCount t - 1\<rparr>) (threads s)\<rparr>,
                Inr (Message ''Answer successfully deleted''))))"

definition editAnswer ::
  "env \<Rightarrow> payload \<Rightarrow> oid \<Rightarrow> jsstring \<Rightarrow> store \<Rightarrow> store \<times> response" where
  "editAnswer e pl answerId body s =
     (if trim body = [] then (s, Inl (BadRequest ''Answer body must not be empty''))
      else case findById a_id answerId (answers s) of
        None \<Rightarrow> (s, Inl InternalServerError)
      | Some answer \<Rightarrow>
          if p_id pl \<noteq> a_author answer then (s, Inl (Unauthorized ''Action not allowed''))
          else
            let as = updateOne a_id answerId
                       (\<lambda>a. a\<lparr>a_body := substring0 1000 body, a_edited := Some (now e)\<rparr>)
                       (answers s)
            in (s\<lparr>answers := as\<rparr>, Inr (AnswerDoc (findById a_id answerId as))))"

definition likeAnswer :: "payload \<Rightarrow> oid option \<Rightarrow> store \<Rightarrow> store \<times> response" where
  "likeAnswer pl answerId s =
     (case answerId of
        None \<Rightarrow> (s, Inl (BadRequest ''answerId must not be empty''))
      | Some aid \<Rightarrow>
          (case findById a_id aid (answers s) of
             None \<Rightarrow> (s, Inl InternalServerError)
           | Some answer \<Rightarrow>
               let answer' = answer\<lparr>a_likes := toggleLike (p_id pl) (a_likes answer)\<rparr>;
                   as = save a_id answer' (answers s)
               in (s\<lparr>answers := as\<rparr>, Inr (AnswerDoc (findById a_id aid as)))))"

section \<open>The mutating operations as one request type\<close>

datatype mutation =
    CreateBoard jsstring jsstring "jsstring option" jsvalue
  | DeleteBoard "oid option"
  | EditBoard oid jsstring jsstring "jsstring option" jsvalue
  | CreateThread "string option" "uploaded list" "oid option" jsstring jsstring
  | DeleteThread "oid option"
  | EditThread oid jsstring jsstring "bool option"
  | AdminEditThread oid jsstring jsstring "bool option" "bool option"
  | LikeThread "oid option"
  | CreateAnswer "string option" "uploaded list" "oid option" "oid option" jsstring
  | DeleteAnswer "oid option"
  | EditAnswer oid jsstring
  | LikeAnswer "oid option"

fun handle :: "env \<Rightarrow> payload \<Rightarrow> mutation \<Rightarrow> store \<Rightarrow> store \<times> response" where
  "handle e pl (CreateBoard name title body position) s =
     createBoard e pl name title body position s"
| "handle e pl (DeleteBoard boardId) s = deleteBoard pl boardId s"
| "handle e pl (EditBoard boardId name title body position) s =
     editBoard pl boardId name title body position s"
| "handle e pl (CreateThread uploadErr files boardId title body) s =
     createThread e pl uploadErr files boardId title body s"
| "handle e pl (DeleteThread threadId) s = deleteThread pl threadId s"
| "handle e pl (EditThread threadId title body closed) s =
     editThread e pl threadId title body closed s"
| "handle e pl (AdminEditThread threadId title body pined closed) s =
     adminEditThread e pl threadId title body pined closed s"
| "handle e pl (LikeThread threadId) s = likeThread pl threadId s"
| "handle e pl (CreateAnswer uploadErr files threadId answeredTo body) s =
     createAnswer e pl uploadErr files threadId answeredTo body s"
| "handle e pl (DeleteAnswer answerId) s = deleteAnswer pl answerId s"
| "handle e pl (EditAnswer answerId body) s = editAnswer e pl answerId body s"
| "handle e pl (LikeAnswer answerId) s = likeAnswer pl answerId s"

text \<open>The denormalised counters against the documents they count.\<close>

definition countAnswersOfThread :: "store \<Rightarrow> oid \<Rightarrow> int" where
  "countAnswersOfThread s tid = int (length (filter (\<lambda>a. a_threadId a = tid) (answers s)))"

definition countAnswersOfBoard :: "store \<Rightarrow> oid \<Rightarrow> int" where
  "countAnswersOfBoard s bid = int (length (filter (\<lambda>a. a_boardId a = bid) (answers s)))"

definition emptyStore :: store where
  "emptyStore = \<lparr> boards = [], threads = [], answers = [] \<rparr>"

section \<open>A small forum\<close>

text \<open>
  The end-to-end scenario of the specification: a moderator creates the board "General",
  user A opens the thread "Hi" under it, user B answers "Reply". \<open>store1\<close>, \<open>store2\<close>
  and \<open>store3\<close> are the stores after each step.
\<close>

definition admin :: payload where
  "admin = \<lparr> p_id = 1, p_role = ascii ''admin'' \<rparr>"
definition userA :: payload where
  "userA = \<lparr> p_id = 2, p_role = ascii ''user'' \<rparr>"
definition userB :: payload where
  "userB = \<lparr> p_id = 3, p_role = ascii ''user'' \<rparr>"
definition envAt :: "timestamp \<Rightarrow> oid \<Rightarrow> env" where
  "envAt t i = \<lparr> now = t, newId = i, BACKEND = ascii ''http://forum'' \<rparr>"

definition demoBoard :: board where
  "demoBoard = \<lparr> b_id = 10, b_name = ascii ''general'', b_title = ascii ''General'',
       b_body = None, b_position = 1, b_createdAt = 100, b_threadsCount = 0,
       b_answersCount = 0, b_newestThread = None, b_newestAnswer = None \<rparr>"
definition demoThread :: thread where
  "demoThread = \<lparr> t_id = 20, t_boardId = 10, t_pined = False, t_closed = False,
       t_title = ascii ''Hi'', t_body = ascii ''Hello'', t_createdAt = 200, t_author = 2,
       t_edited = None, t_likes = [], t_answersCount = 0, t_newestAnswer = 200,
       t_attach = None \<rparr>"
definition demoAnswer :: answer where
  "demoAnswer = \<lparr> a_id = 30, a_boardId = 10, a_threadId = 20, a_answeredTo = None,
       a_body = ascii ''Reply'', a_createdAt = 300, a_author = 3, a_edited = None,
       a_likes = [], a_attach = None \<rparr>"

definition store1 :: store where
  "store1 = \<lparr> boards = [demoBoard], threads = [], answers = [] \<rparr>"
definition store2 :: store where
  "store2 = \<lparr> boards = [demoBoard\<lparr>b_threadsCount := 1, b_newestThread := Some 200\<rparr>],
               threads = [demoThread], answers = [] \<rparr>"
definition store3 :: store where
  "store3 = \<lparr> boards = [demoBoard\<lparr>b_threadsCount := 1, b_newestThread := Some 200,
                                    b_answersCount := 1, b_newestAnswer := Some 300\<rparr>],
               threads = [demoThread\<lparr>t_answersCount := 1, t_newestAnswer := 300\<rparr>],
               answers = [demoAnswer] \<rparr>"

text \<open>
  What a like toggle may change: a thread (an answer) after the toggle is the one before
  up to its \<open>likes\<close>, and is the one before when it is not the toggled one.
\<close>

definition onlyLikesOfThread :: "oid option \<Rightarrow> thread \<Rightarrow> thread \<Rightarrow> bool" where
  "onlyLikesOfThread threadId t t' \<longleftrightarrow>
     t' = t\<lparr>t_likes := t_likes t'\<rparr> \<and> (Some (t_id t) \<noteq> threadId \<longrightarrow> t' = t)"

definition onlyLikesOfAnswer :: "oid option \<Rightarrow> answer \<Rightarrow> answer \<Rightarrow> bool" where
  "onlyLikesOfAnswer answerId a a' \<longleftrightarrow>
     a' = a\<lparr>a_likes := a_likes a'\<rparr> \<and> (Some (a_id a) \<noteq> answerId \<longrightarrow> a' = a)"




text \<open>
  \<open>store4\<close> is \<open>store3\<close> after the moderator deleted the answer, \<open>store5\<close> is
  \<open>store3\<close> after the moderator deleted the thread.
\<close>

definition store4 :: store where
  "store4 = \<lparr> boards = [demoBoard\<lparr>b_threadsCount := 1, b_newestThread := Some 200,
                                    b_answersCount := 1, b_newestAnswer := Some 300\<rparr>],
               threads = [demoThread\<lparr>t_answersCount := 0, t_newestAnswer := 300\<rparr>],
               answers = [] \<rparr>"

definition store5 :: store where
  "store5 = \<lparr> boards = [demoBoard\<lparr>b_threadsCount := 0, b_newestThread := Some 200,
                                    b_answersCount := 1, b_newestAnswer := Some 300\<rparr>],
               threads = [], answers = [] \<rparr>"

section \<open>Like toggles of concurrent requests\<close>

text \<open>
  \<open>likeThread\<close> and \<open>likeAnswer\<close> reach the database three times, each time behind an
  \<open>await\<close>: \<open>findById\<close> loads a copy, \<open>save\<close> writes the copy after the handler has
  tested and changed its \<open>likes\<close>, and a second \<open>findById\<close> loads the reply. Between two
  of these, the database may serve another request. \<open>likeProgress\<close> is where one request
  stands; a step is one access to the database together with the code that follows it up
  to the next \<open>await\<close>.

  What \<open>save\<close> sends for the changed copy is decided by Mongoose, not by the controller,
  so it is a parameter of the steps: it gets the changed copy and the change the handler
  made to \<open>likes\<close> (\<open>likes.push(id)\<close>, or the assignment of the filtered array).
  \<open>saveOverwrite\<close> replaces the stored document by the copy; \<open>saveDelta\<close> sends only the
  change, a push being appended to the stored array and an assignment replacing it.
\<close>

datatype change = Pushed oid | Assigned "oid list"

definition likeChange :: "oid \<Rightarrow> oid list \<Rightarrow> change" where
  "likeChange uid likes =
     (if find (\<lambda>like. like = uid) likes \<noteq> None
      then Assigned (filter (\<lambda>like. like \<noteq> uid) likes)
      else Pushed uid)"

type_synonym 'd persist = "'d \<Rightarrow> change \<Rightarrow> 'd list \<Rightarrow> 'd list"

definition saveOverwrite :: "('d \<Rightarrow> oid) \<Rightarrow> 'd persist" where
  "saveOverwrite key copy ch docs = save key copy docs"

definition saveDelta ::
  "('d \<Rightarrow> oid) \<Rightarrow> ((oid list \<Rightarrow> oid list) \<Rightarrow> 'd \<Rightarrow> 'd) \<Rightarrow> 'd persist" where
  "saveDelta key likes_update copy ch docs =
     updateOne key (key copy)
       (likes_update (\<lambda>stored. case ch of Pushed uid \<Rightarrow> stored @ [uid] | Assigned likes \<Rightarrow> likes))
       docs"

datatype 'd likeProgress =
    Received
  | Loaded oid 'd
  | Saved oid
  | Replied response

fun likeThreadStep ::
  "thread persist \<Rightarrow> payload \<Rightarrow> oid option \<Rightarrow> thread likeProgress \<times> store
     \<Rightarrow> thread likeProgress \<times> store" where
  "likeThreadStep persist pl threadId (Received, s) =
     (case threadId of
        None \<Rightarrow> (Replied (Inl (BadRequest ''threadId must not be empty'')), s)
      | Some tid \<Rightarrow>
          (case findById t_id tid (threads s) of
             None \<Rightarrow> (Replied (Inl InternalServerError), s)
           | Some thread \<Rightarrow> (Loaded tid thread, s)))"
| "likeThreadStep persist pl threadId (Loaded tid thread, s) =
     (let thread' = thread\<lparr>t_likes := toggleLike (p_id pl) (t_likes thread)\<rparr>
      in (Saved tid,
          s\<lparr>threads := persist thread' (likeChange (p_id pl) (t_likes thread)) (threads s)\<rparr>))"
| "likeThreadStep persist pl threadId (Saved tid, s) =
     (Replied (Inr (ThreadDoc (findById t_id tid (threads s)))), s)"
| "likeThreadStep persist pl threadId (Replied r, s) = (Replied r, s)"

fun likeAnswerStep ::
  "answer persist \<Rightarrow> payload \<Rightarrow> oid option \<Rightarrow> answer likeProgress \<times> store
     \<Rightarrow> answer likeProgress \<times> store" where
  "likeAnswerStep persist pl answerId (Received, s) =
     (case answerId of
        None \<Rightarrow> (Replied (Inl (BadRequest ''answerId must not be empty'')), s)
      | Some aid \<Rightarrow>
          (case findById a_id aid (answers s) of
             None \<Rightarrow> (Replied (Inl InternalServerError), s)
           | Some answer \<Rightarrow> (Loaded aid answer, s)))"
| "likeAnswerStep persist pl answerId (Loaded aid answer, s) =
     (let answer' = answer\<lparr>a_likes := toggleLike (p_id pl) (a_likes answer)\<rparr>
      in (Saved aid,
          s\<lparr>answers := persist answer' (likeChange (p_id pl) (a_likes answer)) (answers s)\<rparr>))"
| "likeAnswerStep persist pl answerId (Saved aid, s) =
     (Replied (Inr (AnswerDoc (findById a_id aid (answers s)))), s)"
| "likeAnswerStep persist pl answerId (Replied r, s) = (Replied r, s)"

text \<open>
  Two requests in flight: the schedule says whose step the database serves next.
\<close>

datatype turn = First | Second

fun interleave ::
  "('p \<times> store \<Rightarrow> 'p \<times> store) \<Rightarrow> ('p \<times> store \<Rightarrow> 'p \<times> store) \<Rightarrow> turn list
     \<Rightarrow> 'p \<times> 'p \<times> store \<Rightarrow> 'p \<times> 'p \<times> store" where
  "interleave step1 step2 [] c = c"
| "interleave step1 step2 (First # sched) (p1, p2, s) =
     (case step1 (p1, s) of (p1', s') \<Rightarrow> interleave step1 step2 sched (p1', p2, s'))"
| "interleave step1 step2 (Second # sched) (p1, p2, s) =
     (case step2 (p2, s) of (p2', s') \<Rightarrow> interleave step1 step2 sched (p1, p2', s'))"

definition serial :: "turn list" where
  "serial = [First, First, First, Second, Second, Second]"

definition overlapping :: "turn list" where
  "overlapping = [First, Second, First, Second, First, Second]"

text \<open>\<open>store3\<close> with the given \<open>likes\<close> on its thread, and on its answer.\<close>

definition threadLikedBy :: "oid list \<Rightarrow> thread" where
  "threadLikedBy likes = demoThread\<lparr>t_answersCount := 1, t_newestAnswer := 300, t_likes := likes\<rparr>"

definition store3ThreadLikedBy :: "oid list \<Rightarrow> store" where
  "store3ThreadLikedBy likes = store3\<lparr>threads := [threadLikedBy likes]\<rparr>"

definition store3AnswerLikedBy :: "oid list \<Rightarrow> store" where
  "store3AnswerLikedBy likes = store3\<lparr>answers := [demoAnswer\<lparr>a_likes := likes\<rparr>]\<rparr>"

section \<open>Collections: lookup after update\<close>

lemma findById_key: "findById key i ds = Some d \<Longrightarrow> key d = i"
  by (induction ds) (auto simp: findById_def split: if_splits)

lemma findById_updateOne_None:
  "findById key i ds = None \<Longrightarrow> updateOne key i f ds = ds"
  by (induction ds) (auto simp: findById_def split: if_splits)

lemma findById_updateOne_same:
  "findById key i ds = Some d \<Longrightarrow> key (f d) = i \<Longrightarrow>
   findById key i (updateOne key i f ds) = Some (f d)"
  by (induction ds) (auto simp: findById_def split: if_splits)

lemma toggleLike_self: "uid \<in> set (toggleLike uid likes) \<longleftrightarrow> uid \<notin> set likes"
  by (auto simp: toggleLike_def find_None_iff)

lemma toggleLike_other: "v \<noteq> uid \<Longrightarrow> v \<in> set (toggleLike uid likes) \<longleftrightarrow> v \<in> set likes"
  by (auto simp: toggleLike_def)

lemma likeThread_found:
  assumes "findById t_id tid (threads s) = Some th"
  shows "likeThread pl (Some tid) s =
           (s\<lparr>threads := updateOne t_id tid (\<lambda>_. th\<lparr>t_likes := toggleLike (p_id pl) (t_likes th)\<rparr>) (threads s)\<rparr>,
            Inr (ThreadDoc (Some (th\<lparr>t_likes := toggleLike (p_id pl) (t_likes th)\<rparr>))))"
proof -
  have k: "t_id th = tid" using assms by (rule findById_key)
  have "findById t_id tid (updateOne t_id tid (\<lambda>_. th\<lparr>t_likes := toggleLike (p_id pl) (t_likes th)\<rparr>) (threads s))
        = Some (th\<lparr>t_likes := toggleLike (p_id pl) (t_likes th)\<rparr>)"
    using assms k by (intro findById_updateOne_same) simp_all
  then show ?thesis using assms k by (simp add: likeThread_def save_def Let_def)
qed

lemma likeAnswer_found:
  assumes "findById a_id aid (answers s) = Some an"
  shows "likeAnswer pl (Some aid) s =
           (s\<lparr>answers := updateOne a_id aid (\<lambda>_. an\<lparr>a_likes := toggleLike (p_id pl) (a_likes an)\<rparr>) (answers s)\<rparr>,
            Inr (AnswerDoc (Some (an\<lparr>a_likes := toggleLike (p_id pl) (a_likes an)\<rparr>))))"
proof -
  have k: "a_id an = aid" using assms by (rule findById_key)
  have "findById a_id aid (updateOne a_id aid (\<lambda>_. an\<lparr>a_likes := toggleLike (p_id pl) (a_likes an)\<rparr>) (answers s))
        = Some (an\<lparr>a_likes := toggleLike (p_id pl) (a_likes an)\<rparr>)"
    using assms k by (intro findById_updateOne_same) simp_all
  then show ?thesis using assms k by (simp add: likeAnswer_def save_def Let_def)
qed

section \<open>The scenario, evaluated\<close>

lemmas demo_defs = admin_def userA_def userB_def envAt_def demoBoard_def demoThread_def
  demoAnswer_def store1_def store2_def store3_def emptyStore_def ascii_def trim_def
  isWhiteSpace_def isAdmin_def noEdited_def noLikes_def zeroAnswers_def noNewest_def
  substring0_def saveNew_def findById_def attachFiles_def positionRejected_def Let_def

lemma store1_reached:
  "createBoard (envAt 100 10) admin (ascii ''general'') (ascii ''General'') None (Integer 1) emptyStore
     = (store1, Inr (BoardDoc (Some demoBoard)))"
  by (simp add: createBoard_def demo_defs)

lemma store2_reached:
  "createThread (envAt 200 20) userA None [] (Some 10) (ascii ''Hi'') (ascii ''Hello'') store1
     = (store2, Inr (ThreadDoc (Some demoThread)))"
  by (simp add: createThread_def demo_defs)

lemma store3_reached:
  "createAnswer (envAt 300 30) userB None [] (Some 20) None (ascii ''Reply'') store2
     = (store3, Inr (AnswerDoc (Some demoAnswer)))"
  by (simp add: createAnswer_def demo_defs)

lemma store2_thread: "findById t_id 20 (threads store2) = Some demoThread"
  by (simp add: demo_defs)

lemma store2_board:
  "findById b_id (t_boardId demoThread) (boards store2)
     = Some (demoBoard\<lparr>b_threadsCount := 1, b_newestThread := Some 200\<rparr>)"
  by (simp add: demo_defs)

lemma store3_thread: "findById t_id 20 (threads store3) = Some (demoThread\<lparr>t_answersCount := 1, t_newestAnswer := 300\<rparr>)"
  by (simp add: demo_defs)
lemma store3_answer: "findById a_id 30 (answers store3) = Some demoAnswer"
  by (simp add: demo_defs)

section \<open>Like toggle\<close>

text \<open>
  C2. For a Thread that exists in the store, \<open>likeThread\<close> succeeds, writes only that
  thread and replies with the stored thread, which is the one before up to its \<open>likes\<close>:
  the caller is removed from \<open>likes\<close> if present and appended otherwise, so the caller's
  membership is flipped and every other user id is in \<open>likes\<close> afterwards exactly if it
  was before. The same holds for \<open>likeAnswer\<close> and an Answer that exists in the store.
\<close>

theorem like_toggle_flips_membership:
  "(findById t_id tid (threads s) = Some th \<longrightarrow>
      (\<exists>th'. likeThread pl (Some tid) s
                = (s\<lparr>threads := updateOne t_id tid (\<lambda>t. th') (threads s)\<rparr>,
                   Inr (ThreadDoc (Some th')))
         \<and> findById t_id tid (threads (fst (likeThread pl (Some tid) s))) = Some th'
         \<and> th' = th\<lparr>t_likes := t_likes th'\<rparr>
         \<and> t_likes th' = (if p_id pl \<in> set (t_likes th)
                          then filter (\<lambda>like. like \<noteq> p_id pl) (t_likes th)
                          else t_likes th @ [p_id pl])
         \<and> (p_id pl \<in> set (t_likes th') \<longleftrightarrow> p_id pl \<notin> set (t_likes th))
         \<and> (\<forall>v. v \<noteq> p_id pl \<longrightarrow> (v \<in> set (t_likes th') \<longleftrightarrow> v \<in> set (t_likes th)))))
   \<and> (findById a_id aid (answers sa) = Some an \<longrightarrow>
      (\<exists>an'. likeAnswer pla (Some aid) sa
                = (sa\<lparr>answers := updateOne a_id aid (\<lambda>a. an') (answers sa)\<rparr>,
                   Inr (AnswerDoc (Some an')))
         \<and> findById a_id aid (answers (fst (likeAnswer pla (Some aid) sa))) = Some an'
         \<and> an' = an\<lparr>a_likes := a_likes an'\<rparr>
         \<and> a_likes an' = (if p_id pla \<in> set (a_likes an)
                          then filter (\<lambda>like. like \<noteq> p_id pla) (a_likes an)
                          else a_likes an @ [p_id pla])
         \<and> (p_id pla \<in> set (a_likes an') \<longleftrightarrow> p_id pla \<notin> set (a_likes an))
         \<and> (\<forall>v. v \<noteq> p_id pla \<longrightarrow> (v \<in> set (a_likes an') \<longleftrightarrow> v \<in> set (a_likes an)))))"
proof (intro conjI impI)
  assume f: "findById t_id tid (threads s) = Some th"
  let ?th = "th\<lparr>t_likes := toggleLike (p_id pl) (t_likes th)\<rparr>"
  have k: "t_id th = tid" using f by (rule findById_key)
  have l: "toggleLike (p_id pl) (t_likes th)
             = (if p_id pl \<in> set (t_likes th)
                then filter (\<lambda>like. like \<noteq> p_id pl) (t_likes th)
                else t_likes th @ [p_id pl])"
    by (auto simp: toggleLike_def find_None_iff)
  have st: "findById t_id tid (threads (fst (likeThread pl (Some tid) s))) = Some ?th"
    using f k by (simp add: likeThread_found findById_updateOne_same)
  show "\<exists>th'. likeThread pl (Some tid) s
                = (s\<lparr>threads := updateOne t_id tid (\<lambda>t. th') (threads s)\<rparr>,
                   Inr (ThreadDoc (Some th')))
         \<and> findById t_id tid (threads (fst (likeThread pl (Some tid) s))) = Some th'
         \<and> th' = th\<lparr>t_likes := t_likes th'\<rparr>
         \<and> t_likes th' = (if p_id pl \<in> set (t_likes th)
                          then filter (\<lambda>like. like \<noteq> p_id pl) (t_likes th)
                          else t_likes th @ [p_id pl])
         \<and> (p_id pl \<in> set (t_likes th') \<longleftrightarrow> p_id pl \<notin> set (t_likes th))
         \<and> (\<forall>v. v \<noteq> p_id pl \<longrightarrow> (v \<in> set (t_likes th') \<longleftrightarrow> v \<in> set (t_likes th)))"
    using st l likeThread_found [OF f, of pl]
    by (intro exI [of _ ?th]) (simp add: toggleLike_self toggleLike_other)
next
  assume f: "findById a_id aid (answers sa) = Some an"
  let ?an = "an\<lparr>a_likes := toggleLike (p_id pla) (a_likes an)\<rparr>"
  have k: "a_id an = aid" using f by (rule findById_key)
  have l: "toggleLike (p_id pla) (a_likes an)
             = (if p_id pla \<in> set (a_likes an)
                then filter (\<lambda>like. like \<noteq> p_id pla) (a_likes an)
                else a_likes an @ [p_id pla])"
    by (auto simp: toggleLike_def find_None_iff)
  have st: "findById a_id aid (answers (fst (likeAnswer pla (Some aid) sa))) = Some ?an"
    using f k by (simp add: likeAnswer_found findById_updateOne_same)
  show "\<exists>an'. likeAnswer pla (Some aid) sa
                = (sa\<lparr>answers := updateOne a_id aid (\<lambda>a. an') (answers sa)\<rparr>,
                   Inr (AnswerDoc (Some an')))
         \<and> findById a_id aid (answers (fst (likeAnswer pla (Some aid) sa))) = Some an'
         \<and> an' = an\<lparr>a_likes := a_likes an'\<rparr>
         \<and> a_likes an' = (if p_id pla \<in> set (a_likes an)
                          then filter (\<lambda>like. like \<noteq> p_id pla) (a_likes an)
                          else a_likes an @ [p_id pla])
         \<and> (p_id pla \<in> set (a_likes an') \<longleftrightarrow> p_id pla \<notin> set (a_likes an))
         \<and> (\<forall>v. v \<noteq> p_id pla \<longrightarrow> (v \<in> set (a_likes an') \<longleftrightarrow> v \<in> set (a_likes an)))"
    using st l likeAnswer_found [OF f, of pla]
    by (intro exI [of _ ?an]) (simp add: toggleLike_self toggleLike_other)
qed

theorem like_toggle_flips_membership_witness:
  "findById t_id 20 (threads store2) = Some demoThread
   \<and> answers store2 = []
   \<and> likeThread userA (Some 20) store2
       = (store2\<lparr>threads := [demoThread\<lparr>t_likes := [2]\<rparr>]\<rparr>,
          Inr (ThreadDoc (Some (demoThread\<lparr>t_likes := [2]\<rparr>))))
   \<and> findById a_id 30 (answers store3) = Some demoAnswer
   \<and> likeAnswer userB (Some 30) store3
       = (store3\<lparr>answers := [demoAnswer\<lparr>a_likes := [3]\<rparr>]\<rparr>,
          Inr (AnswerDoc (Some (demoAnswer\<lparr>a_likes := [3]\<rparr>))))"
proof -
  have a: "answers store2 = []" by (simp add: store2_def)
  have t: "likeThread userA (Some 20) store2
       = (store2\<lparr>threads := [demoThread\<lparr>t_likes := [2]\<rparr>]\<rparr>,
          Inr (ThreadDoc (Some (demoThread\<lparr>t_likes := [2]\<rparr>))))"
    by (simp add: likeThread_def save_def toggleLike_def demo_defs)
  have b: "likeAnswer userB (Some 30) store3
       = (store3\<lparr>answers := [demoAnswer\<lparr>a_likes := [3]\<rparr>]\<rparr>,
          Inr (AnswerDoc (Some (demoAnswer\<lparr>a_likes := [3]\<rparr>))))"
    by (simp add: likeAnswer_def save_def toggleLike_def demo_defs)
  show ?thesis
    using like_toggle_flips_membership [of 20 store2 demoThread userA 30 store3 demoAnswer userB]
      store2_thread store3_answer a t b
    by simp
qed

section \<open>Like toggle: what stays unchanged\<close>

lemma updateOne_rel_found:
  "findById key i ds = Some d \<Longrightarrow> (\<And>x. R x x) \<Longrightarrow> R d (f d) \<Longrightarrow>
   list_all2 R ds (updateOne key i f ds)"
  by (induction ds) (auto simp: findById_def list_all2_refl split: if_splits)

lemma likeThread_boards_answers:
  "boards (fst (likeThread pl threadId s)) = boards s \<and> answers (fst (likeThread pl threadId s)) = answers s"
  by (simp add: likeThread_def Let_def split: option.splits)

lemma likeAnswer_boards_threads:
  "boards (fst (likeAnswer pl answerId s)) = boards s \<and> threads (fst (likeAnswer pl answerId s)) = threads s"
  by (simp add: likeAnswer_def Let_def split: option.splits)

lemma likeThread_threads_rel:
  "list_all2 (onlyLikesOfThread threadId) (threads s) (threads (fst (likeThread pl threadId s)))"
proof (cases threadId)
  case None
  then show ?thesis by (simp add: likeThread_def list_all2_refl onlyLikesOfThread_def)
next
  case tid: (Some tid)
  show ?thesis
  proof (cases "findById t_id tid (threads s)")
    case None
    then show ?thesis using tid by (simp add: likeThread_def list_all2_refl onlyLikesOfThread_def)
  next
    case (Some th)
    have k: "t_id th = tid" using Some by (rule findById_key)
    have "list_all2 (onlyLikesOfThread threadId) (threads s)
            (updateOne t_id tid (\<lambda>_. th\<lparr>t_likes := toggleLike (p_id pl) (t_likes th)\<rparr>) (threads s))"
      using Some by (rule updateOne_rel_found) (simp_all add: onlyLikesOfThread_def k tid)
    then show ?thesis using Some tid by (simp add: likeThread_found)
  qed
qed

lemma likeAnswer_answers_rel:
  "list_all2 (onlyLikesOfAnswer answerId) (answers s) (answers (fst (likeAnswer pl answerId s)))"
proof (cases answerId)
  case None
  then show ?thesis by (simp add: likeAnswer_def list_all2_refl onlyLikesOfAnswer_def)
next
  case aid: (Some aid)
  show ?thesis
  proof (cases "findById a_id aid (answers s)")
    case None
    then show ?thesis using aid by (simp add: likeAnswer_def list_all2_refl onlyLikesOfAnswer_def)
  next
    case (Some an)
    have k: "a_id an = aid" using Some by (rule findById_key)
    have "list_all2 (onlyLikesOfAnswer answerId) (answers s)
            (updateOne a_id aid (\<lambda>_. an\<lparr>a_likes := toggleLike (p_id pl) (a_likes an)\<rparr>) (answers s))"
      using Some by (rule updateOne_rel_found) (simp_all add: onlyLikesOfAnswer_def k aid)
    then show ?thesis using Some aid by (simp add: likeAnswer_found)
  qed
qed

text \<open>
  C7. A like toggle leaves every Board and, for \<open>likeThread\<close>, every Answer (for
  \<open>likeAnswer\<close>, every Thread) as it was; in the toggled collection every document keeps
  all its fields except \<open>likes\<close>, and every document other than the toggled one is
  unchanged. So no counter (\<open>answersCount\<close>, \<open>threadsCount\<close>) and no timestamp
  (\<open>newestThread\<close>, \<open>newestAnswer\<close>) changes.
\<close>

theorem like_toggle_changes_only_likes:
  "boards (fst (likeThread pl threadId s)) = boards s
   \<and> answers (fst (likeThread pl threadId s)) = answers s
   \<and> list_all2 (onlyLikesOfThread threadId) (threads s) (threads (fst (likeThread pl threadId s)))
   \<and> boards (fst (likeAnswer pl answerId s)) = boards s
   \<and> threads (fst (likeAnswer pl answerId s)) = threads s
   \<and> list_all2 (onlyLikesOfAnswer answerId) (answers s) (answers (fst (likeAnswer pl answerId s)))"
  using likeThread_boards_answers [of pl threadId s] likeAnswer_boards_threads [of pl answerId s]
    likeThread_threads_rel [of threadId s pl] likeAnswer_answers_rel [of answerId s pl]
  by simp

theorem like_toggle_changes_only_likes_witness:
  "boards (fst (likeThread userA (Some 20) store3)) = boards store3
   \<and> answers (fst (likeThread userA (Some 20) store3)) = answers store3
   \<and> threads (fst (likeThread userA (Some 20) store3))
       = [demoThread\<lparr>t_answersCount := 1, t_newestAnswer := 300, t_likes := [2]\<rparr>]
   \<and> list_all2 (onlyLikesOfThread (Some 20)) (threads store3)
        [demoThread\<lparr>t_answersCount := 1, t_newestAnswer := 300, t_likes := [2]\<rparr>]
   \<and> boards (fst (likeAnswer userA (Some 30) store3)) = boards store3
   \<and> threads (fst (likeAnswer userA (Some 30) store3)) = threads store3
   \<and> answers (fst (likeAnswer userA (Some 30) store3)) = [demoAnswer\<lparr>a_likes := [2]\<rparr>]
   \<and> list_all2 (onlyLikesOfAnswer (Some 30)) (answers store3) [demoAnswer\<lparr>a_likes := [2]\<rparr>]"
proof -
  have t: "threads (fst (likeThread userA (Some 20) store3))
       = [demoThread\<lparr>t_answersCount := 1, t_newestAnswer := 300, t_likes := [2]\<rparr>]"
    by (simp add: likeThread_def save_def toggleLike_def demo_defs)
  have a: "answers (fst (likeAnswer userA (Some 30) store3)) = [demoAnswer\<lparr>a_likes := [2]\<rparr>]"
    by (simp add: likeAnswer_def save_def toggleLike_def demo_defs)
  show ?thesis
    using like_toggle_changes_only_likes [of userA "Some 20" store3 "Some 30"]
    unfolding t a by simp
qed

section \<open>Like toggle and moderation flags\<close>






section \<open>Creating a thread: truncation\<close>

lemma trim_empty_iff: "trim s = [] \<longleftrightarrow> (\<forall>c \<in> set s. isWhiteSpace c)"
proof
  assume "trim s = []"
  then have a: "\<forall>c \<in> set (dropWhile isWhiteSpace s). isWhiteSpace c"
    by (simp add: trim_def dropWhile_eq_Nil_conv)
  show "\<forall>c \<in> set s. isWhiteSpace c"
  proof (cases "dropWhile isWhiteSpace s")
    case Nil
    then show ?thesis by (simp add: dropWhile_eq_Nil_conv)
  next
    case (Cons x xs)
    then have "dropWhile isWhiteSpace s \<noteq> []" by simp
    then have "\<not> isWhiteSpace (hd (dropWhile isWhiteSpace s))"
      by (rule hd_dropWhile)
    then show ?thesis using a Cons by simp
  qed
next
  assume "\<forall>c \<in> set s. isWhiteSpace c"
  then show "trim s = []" by (auto simp: trim_def dest: set_dropWhileD)
qed

text \<open>
  C4. With title and body not empty after trimming (and the upload accepted and a
  \<open>boardId\<close> given), \<open>createThread\<close> ends without an error and stores, as the newest
  thread, one whose title is the first 100 code units of the given title and whose body
  is the first 1000 code units of the given body: an input over the cap is clipped, an
  input at or under the cap is stored unchanged.
\<close>

theorem createThread_clips_title_and_body:
  assumes "trim title \<noteq> []" and "trim body \<noteq> []"
  shows "\<exists>s' th. createThread e pl None files (Some bid) title body s = (s', Inr (ThreadDoc (Some th)))
           \<and> threads s' = threads s @ [th]
           \<and> t_title th = take 100 title \<and> t_body th = take 1000 body
           \<and> length (t_title th) = min 100 (length title)
           \<and> length (t_body th) = min 1000 (length body)
           \<and> (length title \<le> 100 \<longrightarrow> t_title th = title)
           \<and> (length body \<le> 1000 \<longrightarrow> t_body th = body)"
  using assms by (simp add: createThread_def Let_def substring0_def saveNew_def min.commute)

lemma isWhiteSpace_a: "\<not> isWhiteSpace 0x61"
  by (simp add: isWhiteSpace_def)

lemma trim_replicate_a: "0 < n \<Longrightarrow> trim (replicate n 0x61) \<noteq> []"
  by (simp add: trim_empty_iff isWhiteSpace_a)

theorem createThread_clips_title_and_body_witness:
  "trim (replicate 50 0x61) \<noteq> [] \<and> trim (replicate 5000 0x61) \<noteq> []
   \<and> (\<exists>s' th. createThread (envAt 200 20) userA None [] (Some 10)
                  (replicate 50 0x61) (replicate 5000 0x61) store1
                = (s', Inr (ThreadDoc (Some th)))
         \<and> t_title th = replicate 50 0x61 \<and> t_body th = replicate 1000 0x61
         \<and> length (t_body th) = 1000)"
proof -
  have t: "trim (replicate 50 0x61) \<noteq> []" and b: "trim (replicate 5000 0x61) \<noteq> []"
    by (simp_all add: trim_replicate_a)
  show ?thesis
    using t b createThread_clips_title_and_body [OF t b, of "envAt 200 20" userA "[]" 10 store1]
    by (auto simp: min_def)
qed

section \<open>Creating an answer\<close>

text \<open>
  C3. For an existing thread, an accepted upload and a body that is not empty after
  trimming, \<open>createAnswer\<close> succeeds and replies with the new answer, created at \<open>now\<close>
  and stored as the newest answer. The thread's \<open>answersCount\<close> is one more than before
  and its \<open>newestAnswer\<close> is the answer's creation time. If the board with the thread's
  \<open>boardId\<close> exists, its \<open>answersCount\<close> is one more than before and its \<open>newestAnswer\<close>
  is the answer's creation time; if there is no such board, the boards are unchanged.
\<close>

theorem createAnswer_bumps_thread_and_board:
  assumes "trim body \<noteq> []" and "findById t_id tid (threads s) = Some th"
  shows "\<exists>s' an th'.
           createAnswer e pl None files (Some tid) answeredTo body s
             = (s', Inr (AnswerDoc (Some an)))
           \<and> a_createdAt an = now e \<and> a_threadId an = tid \<and> a_boardId an = t_boardId th
           \<and> a_body an = take 1000 body \<and> a_author an = p_id pl
           \<and> answers s' = answers s @ [an]
           \<and> findById t_id tid (threads s') = Some th'
           \<and> th' = th\<lparr>t_answersCount := t_answersCount th + 1, t_newestAnswer := a_createdAt an\<rparr>
           \<and> t_answersCount th' = t_answersCount th + 1
           \<and> t_newestAnswer th' = a_createdAt an
           \<and> (\<forall>b. findById b_id (t_boardId th) (boards s) = Some b \<longrightarrow>
                 (\<exists>b'. findById b_id (t_boardId th) (boards s') = Some b'
                    \<and> b' = b\<lparr>b_answersCount := b_answersCount b + 1,
                              b_newestAnswer := Some (a_createdAt an)\<rparr>
                    \<and> b_answersCount b' = b_answersCount b + 1
                    \<and> b_newestAnswer b' = Some (a_createdAt an)))
           \<and> (findById b_id (t_boardId th) (boards s) = None \<longrightarrow> boards s' = boards s)"
proof -
  have kt: "t_id th = tid" using assms(2) by (rule findById_key)
  let ?an = "\<lparr> a_id = newId e, a_boardId = t_boardId th, a_threadId = tid,
               a_answeredTo = answeredTo, a_body = substring0 1000 body,
               a_createdAt = now e, a_author = p_id pl, a_edited = noEdited,
               a_likes = noLikes, a_attach = attachFiles e files \<rparr>"
  let ?bs = "updateOne b_id (t_boardId th)
               (\<lambda>b. b\<lparr>b_answersCount := b_answersCount b + 1, b_newestAnswer := Some (now e)\<rparr>) (boards s)"
  let ?ts = "updateOne t_id tid
               (\<lambda>t. t\<lparr>t_answersCount := t_answersCount t + 1, t_newestAnswer := now e\<rparr>) (threads s)"
  let ?s' = "s\<lparr>answers := saveNew ?an (answers s), boards := ?bs, threads := ?ts\<rparr>"
  have res: "createAnswer e pl None files (Some tid) answeredTo body s = (?s', Inr (AnswerDoc (Some ?an)))"
    using assms by (simp add: createAnswer_def Let_def)
  have ft: "findById t_id tid ?ts = Some (th\<lparr>t_answersCount := t_answersCount th + 1, t_newestAnswer := now e\<rparr>)"
    using assms(2) kt by (intro findById_updateOne_same) simp_all
  have fb: "findById b_id (t_boardId th) ?bs
              = Some (b\<lparr>b_answersCount := b_answersCount b + 1, b_newestAnswer := Some (now e)\<rparr>)"
    if "findById b_id (t_boardId th) (boards s) = Some b" for b
  proof -
    have "b_id b = t_boardId th" using that by (rule findById_key)
    then show ?thesis using that by (intro findById_updateOne_same) simp_all
  qed
  have nb: "?bs = boards s" if "findById b_id (t_boardId th) (boards s) = None"
    using that by (rule findById_updateOne_None)
  show ?thesis
    unfolding res
    by (intro exI [of _ ?s'] exI [of _ ?an]
        exI [of _ "th\<lparr>t_answersCount := t_answersCount th + 1, t_newestAnswer := now e\<rparr>"])
      (simp add: ft fb nb saveNew_def substring0_def)
qed

lemma trim_Reply: "trim (ascii ''Reply'') \<noteq> []"
  by (simp add: demo_defs)

theorem createAnswer_bumps_thread_and_board_witness:
  "trim (ascii ''Reply'') \<noteq> [] \<and> findById t_id 20 (threads store2) = Some demoThread
   \<and> findById b_id (t_boardId demoThread) (boards store2)
       = Some (demoBoard\<lparr>b_threadsCount := 1, b_newestThread := Some 200\<rparr>)
   \<and> createAnswer (envAt 300 30) userB None [] (Some 20) None (ascii ''Reply'') store2
       = (store3, Inr (AnswerDoc (Some demoAnswer)))
   \<and> findById t_id 20 (threads store3)
       = Some (demoThread\<lparr>t_answersCount := 1, t_newestAnswer := 300\<rparr>)
   \<and> findById b_id 10 (boards store3)
       = Some (demoBoard\<lparr>b_threadsCount := 1, b_newestThread := Some 200,
                          b_answersCount := 1, b_newestAnswer := Some 300\<rparr>)"
  using createAnswer_bumps_thread_and_board [OF trim_Reply store2_thread,
      of "envAt 300 30" userB "[]" None]
    trim_Reply store2_thread store2_board store3_reached
  by (simp add: demo_defs)

section \<open>Editing a thread: the edited marker\<close>

lemma editThread_found:
  assumes "trim title \<noteq> []" and "trim body \<noteq> []"
    and "findById t_id tid (threads s) = Some th" and "p_id pl = t_author th"
  shows "editThread e pl tid title body closed s =
           (s\<lparr>threads := updateOne t_id tid
                 (\<lambda>t. t\<lparr>t_title := substring0 100 title, t_body := substring0 1000 body,
                         t_closed := (case closed of None \<Rightarrow> t_closed th | Some c \<Rightarrow> c),
                         t_edited := (case closed of None \<Rightarrow> Some (now e) | Some c \<Rightarrow> None)\<rparr>)
                 (threads s)\<rparr>,
            Inr (ThreadDoc (Some (th\<lparr>t_title := substring0 100 title, t_body := substring0 1000 body,
                         t_closed := (case closed of None \<Rightarrow> t_closed th | Some c \<Rightarrow> c),
                         t_edited := (case closed of None \<Rightarrow> Some (now e) | Some c \<Rightarrow> None)\<rparr>))))"
proof -
  have k: "t_id th = tid" using assms(3) by (rule findById_key)
  show ?thesis
    using assms k by (simp add: editThread_def Let_def findById_updateOne_same)
qed

lemma adminEditThread_found:
  assumes "trim title \<noteq> []" and "trim body \<noteq> []"
    and "findById t_id tid (threads s) = Some th" and "isAdmin pl"
  shows "adminEditThread e pl tid title body pined closed s =
           (s\<lparr>threads := updateOne t_id tid
                 (\<lambda>t. t\<lparr>t_title := substring0 100 title, t_body := substring0 1000 body,
                         t_pined := (case pined of None \<Rightarrow> t_pined th | Some p \<Rightarrow> p),
                         t_closed := (case closed of None \<Rightarrow> t_closed th | Some c \<Rightarrow> c),
                         t_edited := (if pined = None \<and> closed = None then Some (now e) else None)\<rparr>)
                 (threads s)\<rparr>,
            Inr (ThreadDoc (Some (th\<lparr>t_title := substring0 100 title, t_body := substring0 1000 body,
                         t_pined := (case pined of None \<Rightarrow> t_pined th | Some p \<Rightarrow> p),
                         t_closed := (case closed of None \<Rightarrow> t_closed th | Some c \<Rightarrow> c),
                         t_edited := (if pined = None \<and> closed = None then Some (now e) else None)\<rparr>))))"
proof -
  have k: "t_id th = tid" using assms(3) by (rule findById_key)
  show ?thesis
    using assms k by (simp add: adminEditThread_def Let_def findById_updateOne_same)
qed

text \<open>
  C6. For an existing thread and a title and body that are not empty after trimming,
  \<open>editThread\<close> by the author and \<open>adminEditThread\<close> by a moderator succeed, store the
  title clipped to 100 and the body clipped to 1000 code units, and set the \<open>edited\<close>
  marker (to \<open>now\<close>) exactly if every moderation flag of the call is omitted: \<open>closed\<close>
  for \<open>editThread\<close>, \<open>pined\<close> and \<open>closed\<close> for \<open>adminEditThread\<close>. When a flag is given
  the marker is written as empty and the flag is stored.
\<close>

theorem edit_marks_edited_iff_no_flag:
  assumes "trim title \<noteq> []" and "trim body \<noteq> []"
    and "findById t_id tid (threads s) = Some th"
  shows "(p_id pl = t_author th \<longrightarrow>
           (\<exists>th'. snd (editThread e pl tid title body closed s) = Inr (ThreadDoc (Some th'))
              \<and> findById t_id tid (threads (fst (editThread e pl tid title body closed s))) = Some th'
              \<and> t_title th' = take 100 title \<and> t_body th' = take 1000 body
              \<and> (t_edited th' \<noteq> None \<longleftrightarrow> closed = None)
              \<and> t_edited th' = (if closed = None then Some (now e) else None)
              \<and> t_closed th' = (case closed of None \<Rightarrow> t_closed th | Some c \<Rightarrow> c)
              \<and> t_pined th' = t_pined th))
       \<and> (isAdmin moderator \<longrightarrow>
           (\<exists>th'. snd (adminEditThread e moderator tid title body pined closed' s) = Inr (ThreadDoc (Some th'))
              \<and> findById t_id tid (threads (fst (adminEditThread e moderator tid title body pined closed' s))) = Some th'
              \<and> t_title th' = take 100 title \<and> t_body th' = take 1000 body
              \<and> (t_edited th' \<noteq> None \<longleftrightarrow> pined = None \<and> closed' = None)
              \<and> t_edited th' = (if pined = None \<and> closed' = None then Some (now e) else None)
              \<and> t_pined th' = (case pined of None \<Rightarrow> t_pined th | Some p \<Rightarrow> p)
              \<and> t_closed th' = (case closed' of None \<Rightarrow> t_closed th | Some c \<Rightarrow> c)))"
proof (intro conjI impI)
  have k: "t_id th = tid" using assms(3) by (rule findById_key)
  {
    assume a: "p_id pl = t_author th"
    show "\<exists>th'. snd (editThread e pl tid title body closed s) = Inr (ThreadDoc (Some th'))
              \<and> findById t_id tid (threads (fst (editThread e pl tid title body closed s))) = Some th'
              \<and> t_title th' = take 100 title \<and> t_body th' = take 1000 body
              \<and> (t_edited th' \<noteq> None \<longleftrightarrow> closed = None)
              \<and> t_edited th' = (if closed = None then Some (now e) else None)
              \<and> t_closed th' = (case closed of None \<Rightarrow> t_closed th | Some c \<Rightarrow> c)
              \<and> t_pined th' = t_pined th"
      using assms(3) k
      by (simp add: editThread_found [OF assms a] findById_updateOne_same substring0_def
          split: option.splits)
  }
  {
    assume a: "isAdmin moderator"
    show "\<exists>th'. snd (adminEditThread e moderator tid title body pined closed' s) = Inr (ThreadDoc (Some th'))
              \<and> findById t_id tid (threads (fst (adminEditThread e moderator tid title body pined closed' s))) = Some th'
              \<and> t_title th' = take 100 title \<and> t_body th' = take 1000 body
              \<and> (t_edited th' \<noteq> None \<longleftrightarrow> pined = None \<and> closed' = None)
              \<and> t_edited th' = (if pined = None \<and> closed' = None then Some (now e) else None)
              \<and> t_pined th' = (case pined of None \<Rightarrow> t_pined th | Some p \<Rightarrow> p)
              \<and> t_closed th' = (case closed' of None \<Rightarrow> t_closed th | Some c \<Rightarrow> c)"
      using assms(3) k
      by (simp add: adminEditThread_found [OF assms a] findById_updateOne_same substring0_def
          split: option.splits)
  }
qed

lemma trim_Hi: "trim (ascii ''Hi!'') \<noteq> []" and trim_Howdy: "trim (ascii ''Howdy'') \<noteq> []"
  by (simp_all add: demo_defs)

theorem edit_marks_edited_iff_no_flag_witness:
  "trim (ascii ''Hi!'') \<noteq> [] \<and> trim (ascii ''Howdy'') \<noteq> []
   \<and> findById t_id 20 (threads store3) = Some (demoThread\<lparr>t_answersCount := 1, t_newestAnswer := 300\<rparr>)
   \<and> p_id userA = t_author (demoThread\<lparr>t_answersCount := 1, t_newestAnswer := 300\<rparr>)
   \<and> isAdmin admin
   \<and> snd (editThread (envAt 400 0) userA 20 (ascii ''Hi!'') (ascii ''Howdy'') None store3)
       = Inr (ThreadDoc (Some (demoThread\<lparr>t_answersCount := 1, t_newestAnswer := 300,
               t_title := ascii ''Hi!'', t_body := ascii ''Howdy'', t_edited := Some 400\<rparr>)))
   \<and> snd (adminEditThread (envAt 400 0) admin 20 (ascii ''Hi!'') (ascii ''Howdy'') (Some True) None store3)
       = Inr (ThreadDoc (Some (demoThread\<lparr>t_answersCount := 1, t_newestAnswer := 300,
               t_title := ascii ''Hi!'', t_body := ascii ''Howdy'', t_pined := True,
               t_edited := None\<rparr>)))"
  using edit_marks_edited_iff_no_flag [OF trim_Hi trim_Howdy store3_thread,
      of userA "envAt 400 0" None admin "Some True" None]
  by (simp add: editThread_def adminEditThread_def demo_defs)

section \<open>Errors and the store\<close>

lemma createBoard_error: "createBoard e pl name title body position s = (s', Inl err) \<Longrightarrow> s' = s"
  by (auto simp: createBoard_def Let_def split: if_splits)
lemma deleteBoard_error: "deleteBoard pl boardId s = (s', Inl err) \<Longrightarrow> s' = s"
  by (auto simp: deleteBoard_def Let_def split: if_splits option.splits)
lemma editBoard_error: "editBoard pl boardId name title body position s = (s', Inl err) \<Longrightarrow> s' = s"
  by (auto simp: editBoard_def Let_def split: if_splits)
lemma createThread_error: "createThread e pl uploadErr files boardId title body s = (s', Inl err) \<Longrightarrow> s' = s"
  by (auto simp: createThread_def Let_def split: if_splits option.splits)
lemma deleteThread_error: "deleteThread pl threadId s = (s', Inl err) \<Longrightarrow> s' = s"
  by (auto simp: deleteThread_def Let_def split: if_splits option.splits)
lemma editThread_error: "editThread e pl threadId title body closed s = (s', Inl err) \<Longrightarrow> s' = s"
  by (auto simp: editThread_def Let_def split: if_splits option.splits)
lemma adminEditThread_error:
  "adminEditThread e pl threadId title body pined closed s = (s', Inl err) \<Longrightarrow> s' = s"
  by (auto simp: adminEditThread_def Let_def split: if_splits option.splits)
lemma likeThread_error: "likeThread pl threadId s = (s', Inl err) \<Longrightarrow> s' = s"
  by (auto simp: likeThread_def Let_def split: if_splits option.splits)
lemma createAnswer_error:
  "createAnswer e pl uploadErr files threadId answeredTo body s = (s', Inl err) \<Longrightarrow> s' = s"
  by (auto simp: createAnswer_def Let_def split: if_splits option.splits)
lemma deleteAnswer_error: "deleteAnswer pl answerId s = (s', Inl err) \<Longrightarrow> s' = s"
  by (auto simp: deleteAnswer_def Let_def split: if_splits option.splits)
lemma editAnswer_error: "editAnswer e pl answerId body s = (s', Inl err) \<Longrightarrow> s' = s"
  by (auto simp: editAnswer_def Let_def split: if_splits option.splits)
lemma likeAnswer_error: "likeAnswer pl answerId s = (s', Inl err) \<Longrightarrow> s' = s"
  by (auto simp: likeAnswer_def Let_def split: if_splits option.splits)

lemma handle_error: "handle e pl m s = (s', Inl err) \<Longrightarrow> s' = s"
  by (cases m)
    (simp_all add: createBoard_error deleteBoard_error editBoard_error createThread_error
      deleteThread_error editThread_error adminEditThread_error likeThread_error
      createAnswer_error deleteAnswer_error editAnswer_error likeAnswer_error)

lemma store3_thread_author_B:
  "p_id userB \<noteq> t_author (demoThread\<lparr>t_answersCount := 1, t_newestAnswer := 300\<rparr>)"
  by (simp add: demo_defs)

lemma userB_not_admin: "\<not> isAdmin userB"
  by (simp add: demo_defs)

text \<open>
  \<open>editThread\<close> validates the title and the body before it loads the thread and compares
  the caller with the author: a caller who is neither the author nor a moderator, sending
  a blank title, is answered \<open>BadRequest\<close>, not \<open>Unauthorized\<close>.
\<close>

theorem editThread_blank_title_counterexample:
  "findById t_id 20 (threads store3) = Some (demoThread\<lparr>t_answersCount := 1, t_newestAnswer := 300\<rparr>)
   \<and> p_id userB \<noteq> t_author (demoThread\<lparr>t_answersCount := 1, t_newestAnswer := 300\<rparr>)
   \<and> \<not> isAdmin userB
   \<and> editThread (envAt 400 0) userB 20 (ascii '' '') (ascii ''Howdy'') None store3
       = (store3, Inl (BadRequest ''Board title must not be empty''))
   \<and> snd (editThread (envAt 400 0) userB 20 (ascii '' '') (ascii ''Howdy'') None store3)
       \<noteq> Inl (Unauthorized ''Action not allowed'')"
  by (simp add: editThread_def demo_defs)

text \<open>
  C5 (amended). An \<open>editThread\<close> call on an existing thread, with a title and a body that
  are not empty after trimming, by a caller who is neither the thread's author nor a
  moderator, ends with \<open>Unauthorized\<close> and the store as it was (the caller's role is not
  consulted). And whenever any mutating operation ends with an error, the store is the
  one before the call.
\<close>

theorem errors_leave_store_unchanged:
  "(findById t_id tid (threads s) = Some th \<and> p_id pl \<noteq> t_author th \<and> \<not> isAdmin pl
      \<and> trim title \<noteq> [] \<and> trim body \<noteq> []
      \<longrightarrow> editThread e pl tid title body closed s = (s, Inl (Unauthorized ''Action not allowed'')))
   \<and> (handle e' pl' m s0 = (s1, Inl err) \<longrightarrow> s1 = s0)"
  by (auto simp: editThread_def dest: handle_error)

theorem errors_leave_store_unchanged_witness:
  "findById t_id 20 (threads store3) = Some (demoThread\<lparr>t_answersCount := 1, t_newestAnswer := 300\<rparr>)
   \<and> p_id userB \<noteq> t_author (demoThread\<lparr>t_answersCount := 1, t_newestAnswer := 300\<rparr>)
   \<and> \<not> isAdmin userB \<and> trim (ascii ''Hi!'') \<noteq> [] \<and> trim (ascii ''Howdy'') \<noteq> []
   \<and> editThread (envAt 400 0) userB 20 (ascii ''Hi!'') (ascii ''Howdy'') None store3
       = (store3, Inl (Unauthorized ''Action not allowed''))
   \<and> handle (envAt 400 0) userA (DeleteThread (Some 20)) store3
       = (store3, Inl (Unauthorized ''Action not allowed''))"
proof -
  have h: "handle (envAt 400 0) userA (DeleteThread (Some 20)) store3
       = (store3, Inl (Unauthorized ''Action not allowed''))"
    by (simp add: deleteThread_def demo_defs)
  show ?thesis
    using errors_leave_store_unchanged [of 20 store3
        "demoThread\<lparr>t_answersCount := 1, t_newestAnswer := 300\<rparr>" userB "ascii ''Hi!''"
        "ascii ''Howdy''" "envAt 400 0" None "envAt 400 0" userA "DeleteThread (Some 20)"
        store3 store3 "Unauthorized ''Action not allowed''"]
      store3_thread store3_thread_author_B userB_not_admin trim_Hi trim_Howdy h
    by simp
qed

section \<open>Creating a board: validation\<close>

lemma positionRejected_iff:
  "position \<noteq> Integer 0 \<Longrightarrow>
   positionRejected position \<longleftrightarrow> \<not> (\<exists>i. position = Integer i \<and> 0 \<le> i)"
  by (cases position) (auto simp: positionRejected_def)

text \<open>
  \<open>createBoard\<close> also validates the board's \<open>name\<close>: a moderator's call with a title that
  is not blank and position 5 is answered \<open>BadRequest\<close> when the name is blank.
\<close>

theorem createBoard_blank_name_counterexample:
  "isAdmin admin \<and> trim (ascii ''General'') \<noteq> []
   \<and> createBoard (envAt 100 10) admin (ascii '' '') (ascii ''General'') None (Integer 5) emptyStore
       = (emptyStore, Inl (BadRequest ''Board name must not be empty''))"
  by (simp add: createBoard_def demo_defs)

text \<open>
  \<open>!position\<close> holds for the number 0, so position 0 is refused by \<open>createBoard\<close> and by
  \<open>editBoard\<close>, although the last test of the same condition, \<open>position < 0\<close>, lets it pass.
\<close>

lemma createBoard_position_zero:
  "createBoard (envAt 100 10) admin (ascii ''general'') (ascii ''General'') None (Integer 0) emptyStore
     = (emptyStore, Inl (BadRequest ''Position must be number''))"
  by (simp add: createBoard_def demo_defs)

lemma editBoard_position_zero:
  "editBoard admin 10 (ascii ''general'') (ascii ''General'') None (Integer 0) store1
     = (store1, Inl (BadRequest ''Position must be number''))"
  by (simp add: editBoard_def demo_defs)

text \<open>
  C8 (amended). For a call by a moderator with a position other than the number 0,
  \<open>createBoard\<close> (and \<open>editBoard\<close>) ends with \<open>BadRequest\<close> exactly when the name or the
  title is empty after trimming or the position is not a non-negative integer; with name
  and title not blank and such a position, \<open>createBoard\<close> stores the board and replies
  with it.
\<close>

theorem createBoard_bad_request_iff:
  assumes "isAdmin pl" and "position \<noteq> Integer 0"
  shows "((\<exists>msg. snd (createBoard e pl name title body position s) = Inl (BadRequest msg))
            \<longleftrightarrow> trim name = [] \<or> trim title = [] \<or> \<not> (\<exists>i. position = Integer i \<and> 0 \<le> i))
       \<and> ((\<exists>msg. snd (editBoard pl boardId name title body position s) = Inl (BadRequest msg))
            \<longleftrightarrow> trim name = [] \<or> trim title = [] \<or> \<not> (\<exists>i. position = Integer i \<and> 0 \<le> i))
       \<and> (trim name \<noteq> [] \<and> trim title \<noteq> [] \<and> (\<exists>i. position = Integer i \<and> 0 \<le> i)
            \<longrightarrow> (\<exists>b. createBoard e pl name title body position s
                        = (s\<lparr>boards := boards s @ [b]\<rparr>, Inr (BoardDoc (Some b)))
                    \<and> b_title b = title \<and> position = Integer (b_position b)))"
  using assms positionRejected_iff [OF assms(2)]
  by (auto simp: createBoard_def editBoard_def Let_def saveNew_def)

lemma admin_isAdmin: "isAdmin admin"
  by (simp add: demo_defs)

lemma Integer_1_not_0: "Integer 1 \<noteq> Integer 0"
  by simp

theorem createBoard_bad_request_iff_witness:
  "isAdmin admin \<and> Integer 1 \<noteq> Integer 0
   \<and> trim (ascii ''general'') \<noteq> [] \<and> trim (ascii ''General'') \<noteq> []
   \<and> createBoard (envAt 100 10) admin (ascii ''general'') (ascii ''General'') None (Integer 1) emptyStore
       = (store1, Inr (BoardDoc (Some demoBoard)))
   \<and> \<not> (\<exists>msg. snd (createBoard (envAt 100 10) admin (ascii ''general'') (ascii ''General'') None
                       (Integer 1) emptyStore) = Inl (BadRequest msg))"
proof -
  have t: "trim (ascii ''general'') \<noteq> []" "trim (ascii ''General'') \<noteq> []"
    by (simp_all add: demo_defs)
  show ?thesis
    using createBoard_bad_request_iff [OF admin_isAdmin Integer_1_not_0, of "envAt 100 10"
        "ascii ''general''" "ascii ''General''" None emptyStore 10]
      t admin_isAdmin store1_reached
    by simp
qed

section \<open>Counters after a deletion\<close>

text \<open>
  C1 (the code at a failing input). From the empty store, a moderator creates a board,
  user A a thread under it, user B an answer under the thread. After the moderator deletes
  the answer the thread's \<open>answersCount\<close> is 0, as the number of its answers, but the
  board's \<open>answersCount\<close> is still 1 with no answer left under the board. Deleting the
  thread instead also leaves the board's \<open>answersCount\<close> at 1 with no answer left.
\<close>

theorem deleteAnswer_board_answersCount_stale:
  "createBoard (envAt 100 10) admin (ascii ''general'') (ascii ''General'') None (Integer 1) emptyStore
     = (store1, Inr (BoardDoc (Some demoBoard)))
   \<and> createThread (envAt 200 20) userA None [] (Some 10) (ascii ''Hi'') (ascii ''Hello'') store1
     = (store2, Inr (ThreadDoc (Some demoThread)))
   \<and> createAnswer (envAt 300 30) userB None [] (Some 20) None (ascii ''Reply'') store2
     = (store3, Inr (AnswerDoc (Some demoAnswer)))
   \<and> deleteAnswer admin (Some 30) store3 = (store4, Inr (Message ''Answer successfully deleted''))
   \<and> map b_id (boards store4) = [10] \<and> map b_answersCount (boards store4) = [1]
   \<and> countAnswersOfBoard store4 10 = 0
   \<and> map t_id (threads store4) = [20] \<and> map t_answersCount (threads store4) = [0]
   \<and> countAnswersOfThread store4 20 = 0
   \<and> deleteThread admin (Some 20) store3 = (store5, Inr (Message ''Thread successfully deleted''))
   \<and> map b_id (boards store5) = [10] \<and> map b_answersCount (boards store5) = [1]
   \<and> countAnswersOfBoard store5 10 = 0"
  using store1_reached store2_reached store3_reached
  by (simp add: deleteAnswer_def deleteThread_def deleteMany_def countAnswersOfBoard_def
      countAnswersOfThread_def store4_def store5_def demo_defs)

section \<open>Concurrent like toggles\<close>

text \<open>
  Served without another request in between, the three steps of a request are the handler.
\<close>

lemma updateOne_cong_found:
  "findById key i ds = Some d \<Longrightarrow> f d = g d \<Longrightarrow> updateOne key i f ds = updateOne key i g ds"
  by (induction ds) (auto simp: findById_def split: if_splits)

lemma likeChange_applied:
  "(case likeChange uid likes of Pushed u \<Rightarrow> likes @ [u] | Assigned ls \<Rightarrow> ls) = toggleLike uid likes"
  by (simp add: likeChange_def toggleLike_def)

lemma likeThread_as_steps:
  "likeThreadStep (saveOverwrite t_id) pl threadId
     (likeThreadStep (saveOverwrite t_id) pl threadId
        (likeThreadStep (saveOverwrite t_id) pl threadId (Received, s)))
   = (Replied (snd (likeThread pl threadId s)), fst (likeThread pl threadId s))"
  by (simp add: likeThread_def saveOverwrite_def Let_def split: option.splits)

lemma likeAnswer_as_steps:
  "likeAnswerStep (saveOverwrite a_id) pl answerId
     (likeAnswerStep (saveOverwrite a_id) pl answerId
        (likeAnswerStep (saveOverwrite a_id) pl answerId (Received, s)))
   = (Replied (snd (likeAnswer pl answerId s)), fst (likeAnswer pl answerId s))"
  by (simp add: likeAnswer_def saveOverwrite_def Let_def split: option.splits)

lemma likeThread_as_steps_delta:
  "likeThreadStep (saveDelta t_id t_likes_update) pl threadId
     (likeThreadStep (saveDelta t_id t_likes_update) pl threadId
        (likeThreadStep (saveDelta t_id t_likes_update) pl threadId (Received, s)))
   = (Replied (snd (likeThread pl threadId s)), fst (likeThread pl threadId s))"
proof (cases threadId)
  case None
  then show ?thesis by (simp add: likeThread_def)
next
  case tid: (Some tid)
  show ?thesis
  proof (cases "findById t_id tid (threads s)")
    case None
    then show ?thesis using tid by (simp add: likeThread_def)
  next
    case (Some th)
    have k: "t_id th = tid" using Some by (rule findById_key)
    have "updateOne t_id tid
            (t_likes_update (\<lambda>stored. case likeChange (p_id pl) (t_likes th) of
                 Pushed uid \<Rightarrow> stored @ [uid] | Assigned likes \<Rightarrow> likes)) (threads s)
          = updateOne t_id tid (\<lambda>_. th\<lparr>t_likes := toggleLike (p_id pl) (t_likes th)\<rparr>) (threads s)"
      using Some
      by (rule updateOne_cong_found) (simp add: likeChange_def toggleLike_def)
    then show ?thesis
      using Some tid k by (simp add: likeThread_def saveDelta_def save_def Let_def)
  qed
qed

lemma overlapping_same_user_both_push:
  assumes "findById t_id tid (threads s) = Some th" and "p_id pl \<notin> set (t_likes th)"
  shows "interleave (likeThreadStep persist pl (Some tid)) (likeThreadStep persist pl (Some tid))
           [First, Second, First, Second] (Received, Received, s)
         = (Saved tid, Saved tid,
            s\<lparr>threads := persist (th\<lparr>t_likes := t_likes th @ [p_id pl]\<rparr>) (Pushed (p_id pl))
                           (persist (th\<lparr>t_likes := t_likes th @ [p_id pl]\<rparr>) (Pushed (p_id pl))
                              (threads s))\<rparr>)"
proof -
  have "find (\<lambda>like. like = p_id pl) (t_likes th) = None"
    using assms(2) by (simp add: find_None_iff)
  then show ?thesis
    using assms(1) by (simp add: toggleLike_def likeChange_def Let_def)
qed

lemmas run_defs = serial_def overlapping_def threadLikedBy_def store3ThreadLikedBy_def
  store3AnswerLikedBy_def saveOverwrite_def saveDelta_def save_def toggleLike_def likeChange_def

text \<open>
  C9 (the code at a failing schedule). Two \<open>likeThread\<close> requests of user A for the
  thread of \<open>store3\<close>, which nobody likes. Served one after the other, the first reply
  shows A liking and the second not, and the stored \<open>likes\<close> are empty. Served
  overlapping (both reads, then both writes, then both replies), both requests take the
  like branch and both replies show A liking; the stored \<open>likes\<close> are \<open>[2]\<close> when \<open>save\<close>
  replaces the document and \<open>[2, 2]\<close> when it sends the push, in neither case the
  outcome of a serial order. With user A and user B and a replacing \<open>save\<close>, the
  overlapping schedule loses A's like: \<open>[3]\<close> is stored where the serial order stores
  \<open>[2, 3]\<close>. \<open>likeAnswer\<close> behaves the same on the answer of \<open>store3\<close>.
\<close>

theorem concurrent_like_toggles_not_serialised:
  "interleave (likeThreadStep (saveOverwrite t_id) userA (Some 20))
       (likeThreadStep (saveOverwrite t_id) userA (Some 20)) serial (Received, Received, store3)
     = (Replied (Inr (ThreadDoc (Some (threadLikedBy [2])))),
        Replied (Inr (ThreadDoc (Some (threadLikedBy [])))), store3ThreadLikedBy [])
   \<and> interleave (likeThreadStep (saveOverwrite t_id) userA (Some 20))
       (likeThreadStep (saveOverwrite t_id) userA (Some 20)) overlapping (Received, Received, store3)
     = (Replied (Inr (ThreadDoc (Some (threadLikedBy [2])))),
        Replied (Inr (ThreadDoc (Some (threadLikedBy [2])))), store3ThreadLikedBy [2])
   \<and> interleave (likeThreadStep (saveDelta t_id t_likes_update) userA (Some 20))
       (likeThreadStep (saveDelta t_id t_likes_update) userA (Some 20)) overlapping
       (Received, Received, store3)
     = (Replied (Inr (ThreadDoc (Some (threadLikedBy [2, 2])))),
        Replied (Inr (ThreadDoc (Some (threadLikedBy [2, 2])))), store3ThreadLikedBy [2, 2])
   \<and> interleave (likeThreadStep (saveOverwrite t_id) userA (Some 20))
       (likeThreadStep (saveOverwrite t_id) userB (Some 20)) serial (Received, Received, store3)
     = (Replied (Inr (ThreadDoc (Some (threadLikedBy [2])))),
        Replied (Inr (ThreadDoc (Some (threadLikedBy [2, 3])))), store3ThreadLikedBy [2, 3])
   \<and> interleave (likeThreadStep (saveOverwrite t_id) userA (Some 20))
       (likeThreadStep (saveOverwrite t_id) userB (Some 20)) overlapping (Received, Received, store3)
     = (Replied (Inr (ThreadDoc (Some (threadLikedBy [3])))),
        Replied (Inr (ThreadDoc (Some (threadLikedBy [3])))), store3ThreadLikedBy [3])
   \<and> interleave (likeAnswerStep (saveOverwrite a_id) userA (Some 30))
       (likeAnswerStep (saveOverwrite a_id) userA (Some 30)) serial (Received, Received, store3)
     = (Replied (Inr (AnswerDoc (Some (demoAnswer\<lparr>a_likes := [2]\<rparr>)))),
        Replied (Inr (AnswerDoc (Some (demoAnswer\<lparr>a_likes := []\<rparr>)))), store3AnswerLikedBy [])
   \<and> interleave (likeAnswerStep (saveOverwrite a_id) userA (Some 30))
       (likeAnswerStep (saveOverwrite a_id) userA (Some 30)) overlapping (Received, Received, store3)
     = (Replied (Inr (AnswerDoc (Some (demoAnswer\<lparr>a_likes := [2]\<rparr>)))),
        Replied (Inr (AnswerDoc (Some (demoAnswer\<lparr>a_likes := [2]\<rparr>)))), store3AnswerLikedBy [2])
   \<and> interleave (likeAnswerStep (saveDelta a_id a_likes_update) userA (Some 30))
       (likeAnswerStep (saveDelta a_id a_likes_update) userA (Some 30)) overlapping
       (Received, Received, store3)
     = (Replied (Inr (AnswerDoc (Some (demoAnswer\<lparr>a_likes := [2, 2]\<rparr>)))),
        Replied (Inr (AnswerDoc (Some (demoAnswer\<lparr>a_likes := [2, 2]\<rparr>)))), store3AnswerLikedBy [2, 2])"
  by (simp add: run_defs demo_defs)

end
